theory Spec2Isabelle
  imports Main "HOL-Library.Sublist" "HOL-Library.Word"
begin

section \<open>edgefxn.py: fetching the prebuilt Function libraries\<close>

text \<open>
  The script resolves a version tag, builds a list of seven libraries (a URL on the CDN
  and a destination below \<^verbatim>\<open>Packages/ai.fxn.fxn3d/Plugins\<close>) and downloads them one
  after the other. Everything it touches outside its own variables is made explicit here:
  the file system, the HTTP requests it has issued and the lines it has printed are fields
  of a \<open>world\<close> record that every operation takes and returns; the network, the JSON
  decoder of the HTTP library and Python's \<^verbatim>\<open>str()\<close> on values that are not strings
  are parameters. An exception is a value \<open>Inl e\<close>; it is propagated by every caller,
  since the script has no \<^verbatim>\<open>try\<close>.
\<close>

subsection \<open>Data\<close>

type_synonym bytes = "8 word list"

text \<open>
  A \<^verbatim>\<open>pathlib.Path\<close> relative to the working directory, as the list of its
  components. The script only builds paths from literal single components.
\<close>

type_synonym path = "string list"

definition Path :: "string \<Rightarrow> path" where
  "Path s = [s]"

definition truediv :: "path \<Rightarrow> string \<Rightarrow> path" where
  \<comment> \<open>the operator \<^verbatim>\<open>/\<close> of pathlib with one more component on the right\<close>
  "truediv p s = p @ [s]"

fun path_str :: "path \<Rightarrow> string" where
  \<comment> \<open>\<^verbatim>\<open>str(path)\<close> with the POSIX separator\<close>
  "path_str [] = ''.''"
| "path_str [s] = s"
| "path_str (s # t # ps) = s @ ''/'' @ path_str (t # ps)"

text \<open>
  The value \<^verbatim>\<open>response.json()\<close> returns. \<open>JStr\<close> is also Python's \<^verbatim>\<open>str\<close>, the
  type of \<^verbatim>\<open>args.version\<close>. A number keeps its literal text: the script never computes
  with one. \<open>JObj\<close> lists the items of the decoded \<^verbatim>\<open>dict\<close>, whose keys are distinct.
\<close>

datatype json =
    JNull
  | JBool bool
  | JNum string
  | JStr string
  | JArr "json list"
  | JObj "(string \<times> json) list"

datatype error =
    RequestException
  | HTTPError nat
  | JSONDecodeError
  | KeyError string
  | TypeError
  | FileNotFoundError path
  | NotADirectoryError path
  | IsADirectoryError path
  | PermissionError path

datatype response = Response (status_code: nat) (content: bytes)

text \<open>
  \<open>dirs\<close> are the directories that exist besides the working directory \<open>[]\<close>, which
  always does; \<open>files\<close> are the regular files with their contents, \<open>denied\<close> the paths
  the process may not write. \<open>requests\<close> is the log of the
  URLs passed to \<^verbatim>\<open>get\<close>, oldest first, and \<open>stdout\<close> the lines printed.
\<close>

record world =
  dirs :: "path set"
  files :: "path \<rightharpoonup> bytes"
  denied :: "path set"
  requests :: "string list"
  stdout :: "string list"

text \<open>
  The network answers the \<open>n\<close>-th request of the run (counted from 0) for a URL with a
  response, or with \<open>None\<close> when the request cannot be completed (no connection, a
  timeout, too many redirects), which \<^verbatim>\<open>requests.get\<close> raises as an exception.
\<close>

type_synonym network = "nat \<Rightarrow> string \<Rightarrow> response option"

subsection \<open>The HTTP library and the file system\<close>

definition get :: "network \<Rightarrow> string \<Rightarrow> world \<Rightarrow> (error + response) \<times> world" where
  "get net url w =
     (case net (length (requests w)) url of
        None \<Rightarrow> Inl RequestException
      | Some r \<Rightarrow> Inr r,
      w\<lparr>requests := requests w @ [url]\<rparr>)"

definition raise_for_status :: "response \<Rightarrow> error + unit" where
  \<comment> \<open>\<^verbatim>\<open>Response.raise_for_status\<close> of the requests library: it raises for a client
      error (4xx) and for a server error (5xx), and returns for every other status\<close>
  "raise_for_status r =
     (if 400 \<le> status_code r \<and> status_code r < 600
      then Inl (HTTPError (status_code r)) else Inr ())"

fun resolve_dir :: "world \<Rightarrow> path \<Rightarrow> path \<Rightarrow> string list \<Rightarrow> error option" where
  \<comment> \<open>the walk of \<^verbatim>\<open>open\<close> from the directory \<open>q\<close> (which exists) down the components
      \<open>cs\<close>, on behalf of the path \<open>p\<close>: the first component that is missing raises
      \<^verbatim>\<open>FileNotFoundError\<close>, the first that is a regular file \<^verbatim>\<open>NotADirectoryError\<close>\<close>
  "resolve_dir w p q [] = None"
| "resolve_dir w p q (c # cs) =
     (if q @ [c] \<in> dirs w then resolve_dir w p (q @ [c]) cs
      else if q @ [c] \<in> dom (files w) then Some (NotADirectoryError p)
      else Some (FileNotFoundError p))"

definition write_binary :: "path \<Rightarrow> bytes \<Rightarrow> world \<Rightarrow> (error + unit) \<times> world" where
  \<comment> \<open>\<^verbatim>\<open>with open(path, "wb") as f: f.write(data)\<close>: every directory above the file must
      exist, and none is created; the file is created, or truncated, and takes the data\<close>
  "write_binary p data w =
     (case resolve_dir w p [] (butlast p) of
        Some e \<Rightarrow> (Inl e, w)
      | None \<Rightarrow>
          if p = [] \<or> p \<in> dirs w then (Inl (IsADirectoryError p), w)
          else if p \<in> denied w then (Inl (PermissionError p), w)
          else (Inr (), w\<lparr>files := (files w)(p \<mapsto> data)\<rparr>))"

fun getitem :: "json \<Rightarrow> string \<Rightarrow> error + json" where
  \<comment> \<open>\<^verbatim>\<open>value[key]\<close> with a string key\<close>
  "getitem (JObj kvs) k = (case map_of kvs k of None \<Rightarrow> Inl (KeyError k) | Some v \<Rightarrow> Inr v)"
| "getitem _ k = Inl TypeError"

definition format_value :: "(json \<Rightarrow> string) \<Rightarrow> json \<Rightarrow> string" where
  \<comment> \<open>a replacement field \<^verbatim>\<open>{version}\<close> of an f-string: a string as it is, any other
      value through \<^verbatim>\<open>str()\<close>, the parameter \<open>str_of\<close>\<close>
  "format_value str_of v = (case v of JStr s \<Rightarrow> s | _ \<Rightarrow> str_of v)"

subsection \<open>The script\<close>

definition download_fxnc :: "network \<Rightarrow> string \<Rightarrow> path \<Rightarrow> world \<Rightarrow> (error + unit) \<times> world" where
  "download_fxnc net url path w =
     (case get net url w of
        (Inl e, w1) \<Rightarrow> (Inl e, w1)
      | (Inr response, w1) \<Rightarrow>
          (case raise_for_status response of
             Inl e \<Rightarrow> (Inl e, w1)
           | Inr _ \<Rightarrow>
               (case write_binary path (content response) w1 of
                  (Inl e, w2) \<Rightarrow> (Inl e, w2)
                | (Inr _, w2) \<Rightarrow>
                    (Inr (), w2\<lparr>stdout := stdout w2 @
                       [''Wrote '' @ url @ '' to path: '' @ path_str path]\<rparr>))))"

definition releases_url :: string where
  "releases_url = ''https://api.github.com/repos/fxnai/fxnc/releases/latest''"

definition get_latest_version ::
  "network \<Rightarrow> (bytes \<Rightarrow> json option) \<Rightarrow> world \<Rightarrow> (error + json) \<times> world" where
  \<comment> \<open>\<open>json_of\<close> is \<^verbatim>\<open>response.json()\<close>; \<open>None\<close> when the body is not JSON\<close>
  "get_latest_version net json_of w =
     (case get net releases_url w of
        (Inl e, w1) \<Rightarrow> (Inl e, w1)
      | (Inr response, w1) \<Rightarrow>
          (case raise_for_status response of
             Inl e \<Rightarrow> (Inl e, w1)
           | Inr _ \<Rightarrow>
               (case json_of (content response) of
                  None \<Rightarrow> (Inl JSONDecodeError, w1)
                | Some release \<Rightarrow> (getitem release ''tag_name'', w1))))"

definition truthy :: "string option \<Rightarrow> bool" where
  \<comment> \<open>the truth value of \<^verbatim>\<open>args.version\<close>: \<^verbatim>\<open>None\<close> and the empty string are false\<close>
  "truthy a = (case a of None \<Rightarrow> False | Some s \<Rightarrow> s \<noteq> [])"

definition resolve_version ::
  "network \<Rightarrow> (bytes \<Rightarrow> json option) \<Rightarrow> string option \<Rightarrow> world \<Rightarrow> (error + json) \<times> world" where
  \<comment> \<open>\<^verbatim>\<open>args.version if args.version else _get_latest_version()\<close>\<close>
  "resolve_version net json_of a w =
     (if truthy a then (Inr (JStr (the a)), w) else get_latest_version net json_of w)"

record lib =
  url :: string
  path :: path

definition LIB_PATH_BASE :: path where
  "LIB_PATH_BASE = truediv (truediv (Path ''Packages'') ''ai.fxn.fxn3d'') ''Plugins''"

definition LIBS :: "string \<Rightarrow> lib list" where
  "LIBS version =
    [\<lparr>url = ''https://cdn.fxn.ai/edgefxn/'' @ version @ ''/libFunction-android-arm64-v8a.so'',
      path = truediv (truediv (truediv LIB_PATH_BASE ''Android'') ''arm64-v8a'') ''libFunction.so''\<rparr>,
     \<lparr>url = ''https://cdn.fxn.ai/edgefxn/'' @ version @ ''/libFunction-android-armeabi-v7a.so'',
      path = truediv (truediv (truediv LIB_PATH_BASE ''Android'') ''armeabi-v7a'') ''libFunction.so''\<rparr>,
     \<lparr>url = ''https://cdn.fxn.ai/edgefxn/'' @ version @ ''/libFunction-android-x86.so'',
      path = truediv (truediv (truediv LIB_PATH_BASE ''Android'') ''x86'') ''libFunction.so''\<rparr>,
     \<lparr>url = ''https://cdn.fxn.ai/edgefxn/'' @ version @ ''/libFunction-android-x86_64.so'',
      path = truediv (truediv (truediv LIB_PATH_BASE ''Android'') ''x86_64'') ''libFunction.so''\<rparr>,
     \<lparr>url = ''https://cdn.fxn.ai/edgefxn/'' @ version @ ''/Function-macos.dylib'',
      path = truediv (truediv LIB_PATH_BASE ''macOS'') ''Function.dylib''\<rparr>,
     \<lparr>url = ''https://cdn.fxn.ai/edgefxn/'' @ version @ ''/Function.wasm'',
      path = truediv (truediv LIB_PATH_BASE ''Web'') ''libFunction.so''\<rparr>,
     \<lparr>url = ''https://cdn.fxn.ai/edgefxn/'' @ version @ ''/Function-win64.dll'',
      path = truediv (truediv LIB_PATH_BASE ''Windows'') ''Function.dll''\<rparr>]"

fun download_libs :: "network \<Rightarrow> lib list \<Rightarrow> world \<Rightarrow> (error + unit) \<times> world" where
  \<comment> \<open>\<^verbatim>\<open>for lib in LIBS: _download_fxnc(lib["url"], lib["path"])\<close>\<close>
  "download_libs net [] w = (Inr (), w)"
| "download_libs net (l # ls) w =
     (case download_fxnc net (url l) (path l) w of
        (Inl e, w1) \<Rightarrow> (Inl e, w1)
      | (Inr _, w1) \<Rightarrow> download_libs net ls w1)"

definition main ::
  "network \<Rightarrow> (bytes \<Rightarrow> json option) \<Rightarrow> (json \<Rightarrow> string) \<Rightarrow> string option \<Rightarrow> world
     \<Rightarrow> (error + unit) \<times> world" where
  \<comment> \<open>\<open>a\<close> is \<^verbatim>\<open>args.version\<close> after \<^verbatim>\<open>parse_args\<close>\<close>
  "main net json_of str_of a w =
     (case resolve_version net json_of a w of
        (Inl e, w1) \<Rightarrow> (Inl e, w1)
      | (Inr version, w1) \<Rightarrow> download_libs net (LIBS (format_value str_of version)) w1)"

definition exit_code :: "error + unit \<Rightarrow> nat" where
  \<comment> \<open>the interpreter ends with status 1 on an exception nobody catches, with 0 otherwise\<close>
  "exit_code r = (case r of Inl _ \<Rightarrow> 1 | Inr _ \<Rightarrow> 0)"

subsection \<open>Worlds and networks used in the examples\<close>

definition plugin_dirs :: "path set" where
  \<comment> \<open>the seven directories the libraries go into, and the directories above them\<close>
  "plugin_dirs =
     {[''Packages''],
      [''Packages'', ''ai.fxn.fxn3d''],
      [''Packages'', ''ai.fxn.fxn3d'', ''Plugins''],
      [''Packages'', ''ai.fxn.fxn3d'', ''Plugins'', ''Android''],
      [''Packages'', ''ai.fxn.fxn3d'', ''Plugins'', ''Android'', ''arm64-v8a''],
      [''Packages'', ''ai.fxn.fxn3d'', ''Plugins'', ''Android'', ''armeabi-v7a''],
      [''Packages'', ''ai.fxn.fxn3d'', ''Plugins'', ''Android'', ''x86''],
      [''Packages'', ''ai.fxn.fxn3d'', ''Plugins'', ''Android'', ''x86_64''],
      [''Packages'', ''ai.fxn.fxn3d'', ''Plugins'', ''macOS''],
      [''Packages'', ''ai.fxn.fxn3d'', ''Plugins'', ''Web''],
      [''Packages'', ''ai.fxn.fxn3d'', ''Plugins'', ''Windows'']}"

definition w_bare :: world where
  \<comment> \<open>an empty working directory\<close>
  "w_bare = \<lparr>dirs = {}, files = Map.empty, denied = {}, requests = [], stdout = []\<rparr>"

definition w_plugins :: world where
  \<comment> \<open>the plugin directories exist and are empty\<close>
  "w_plugins = \<lparr>dirs = plugin_dirs, files = Map.empty, denied = {}, requests = [], stdout = []\<rparr>"

definition w_stale :: world where
  \<comment> \<open>the plugin directories exist and hold an older Windows library of two bytes\<close>
  "w_stale = \<lparr>dirs = plugin_dirs,
     files = [[''Packages'', ''ai.fxn.fxn3d'', ''Plugins'', ''Windows'', ''Function.dll'']
                \<mapsto> [222, 173]],
     denied = {}, requests = [], stdout = []\<rparr>"

definition net_always :: "response \<Rightarrow> network" where
  \<comment> \<open>every request is answered with the same response\<close>
  "net_always r n u = Some r"

definition net_down :: network where
  \<comment> \<open>no request can be completed\<close>
  "net_down n u = None"

definition net_404_from :: "nat \<Rightarrow> network" where
  \<comment> \<open>the first \<open>k\<close> requests are answered with status 200 and three bytes, the later ones
      with status 404\<close>
  "net_404_from k n u = Some (if n < k then Response 200 [1, 2, 3] else Response 404 [])"

definition json_always :: "json \<Rightarrow> bytes \<Rightarrow> json option" where
  \<comment> \<open>a decoder for the examples: every body decodes to the same value\<close>
  "json_always j b = Some j"

definition str_unused :: "json \<Rightarrow> string" where
  \<comment> \<open>\<^verbatim>\<open>str()\<close> in the examples, where every version is a string and it is never called\<close>
  "str_unused v = []"

section \<open>The list of libraries\<close>

lemmas path_defs = LIB_PATH_BASE_def truediv_def Path_def

text \<open>
  C2. For every version string the list has exactly seven entries, every URL contains the
  version string as a contiguous substring, and every destination lies strictly below
  \<^verbatim>\<open>Packages/ai.fxn.fxn3d/Plugins\<close>. The seven URLs are the seven templates of the CDN
  with the version in them, and the seven destinations are the same for every version.
\<close>

theorem LIBS_seven_targets:
  "length (LIBS v) = 7 \<and>
   (\<forall>l \<in> set (LIBS v).
      sublist v (url l) \<and>
      strict_prefix [''Packages'', ''ai.fxn.fxn3d'', ''Plugins''] (path l)) \<and>
   map url (LIBS v) =
     [''https://cdn.fxn.ai/edgefxn/'' @ v @ ''/libFunction-android-arm64-v8a.so'',
      ''https://cdn.fxn.ai/edgefxn/'' @ v @ ''/libFunction-android-armeabi-v7a.so'',
      ''https://cdn.fxn.ai/edgefxn/'' @ v @ ''/libFunction-android-x86.so'',
      ''https://cdn.fxn.ai/edgefxn/'' @ v @ ''/libFunction-android-x86_64.so'',
      ''https://cdn.fxn.ai/edgefxn/'' @ v @ ''/Function-macos.dylib'',
      ''https://cdn.fxn.ai/edgefxn/'' @ v @ ''/Function.wasm'',
      ''https://cdn.fxn.ai/edgefxn/'' @ v @ ''/Function-win64.dll''] \<and>
   map path (LIBS v) =
     [[''Packages'', ''ai.fxn.fxn3d'', ''Plugins'', ''Android'', ''arm64-v8a'', ''libFunction.so''],
      [''Packages'', ''ai.fxn.fxn3d'', ''Plugins'', ''Android'', ''armeabi-v7a'', ''libFunction.so''],
      [''Packages'', ''ai.fxn.fxn3d'', ''Plugins'', ''Android'', ''x86'', ''libFunction.so''],
      [''Packages'', ''ai.fxn.fxn3d'', ''Plugins'', ''Android'', ''x86_64'', ''libFunction.so''],
      [''Packages'', ''ai.fxn.fxn3d'', ''Plugins'', ''macOS'', ''Function.dylib''],
      [''Packages'', ''ai.fxn.fxn3d'', ''Plugins'', ''Web'', ''libFunction.so''],
      [''Packages'', ''ai.fxn.fxn3d'', ''Plugins'', ''Windows'', ''Function.dll'']]"
proof -
  have "length (LIBS v) = 7"
    by (simp add: LIBS_def)
  moreover have "\<forall>l \<in> set (LIBS v). sublist v (url l)"
    by (simp add: LIBS_def del: append.simps)
  moreover have
    "\<forall>l \<in> set (LIBS v). strict_prefix [''Packages'', ''ai.fxn.fxn3d'', ''Plugins''] (path l)"
    by (simp add: LIBS_def path_defs strict_prefix_def)
  moreover have "map url (LIBS v) =
     [''https://cdn.fxn.ai/edgefxn/'' @ v @ ''/libFunction-android-arm64-v8a.so'',
      ''https://cdn.fxn.ai/edgefxn/'' @ v @ ''/libFunction-android-armeabi-v7a.so'',
      ''https://cdn.fxn.ai/edgefxn/'' @ v @ ''/libFunction-android-x86.so'',
      ''https://cdn.fxn.ai/edgefxn/'' @ v @ ''/libFunction-android-x86_64.so'',
      ''https://cdn.fxn.ai/edgefxn/'' @ v @ ''/Function-macos.dylib'',
      ''https://cdn.fxn.ai/edgefxn/'' @ v @ ''/Function.wasm'',
      ''https://cdn.fxn.ai/edgefxn/'' @ v @ ''/Function-win64.dll'']"
    by (simp add: LIBS_def)
  moreover have "map path (LIBS v) =
     [[''Packages'', ''ai.fxn.fxn3d'', ''Plugins'', ''Android'', ''arm64-v8a'', ''libFunction.so''],
      [''Packages'', ''ai.fxn.fxn3d'', ''Plugins'', ''Android'', ''armeabi-v7a'', ''libFunction.so''],
      [''Packages'', ''ai.fxn.fxn3d'', ''Plugins'', ''Android'', ''x86'', ''libFunction.so''],
      [''Packages'', ''ai.fxn.fxn3d'', ''Plugins'', ''Android'', ''x86_64'', ''libFunction.so''],
      [''Packages'', ''ai.fxn.fxn3d'', ''Plugins'', ''macOS'', ''Function.dylib''],
      [''Packages'', ''ai.fxn.fxn3d'', ''Plugins'', ''Web'', ''libFunction.so''],
      [''Packages'', ''ai.fxn.fxn3d'', ''Plugins'', ''Windows'', ''Function.dll'']]"
    by (simp add: LIBS_def path_defs)
  ultimately show ?thesis by blast
qed

theorem LIBS_seven_targets_witness:
  "length (LIBS ''v1.2.3'') = 7 \<and>
   sublist ''v1.2.3'' (url (LIBS ''v1.2.3'' ! 4)) \<and>
   strict_prefix [''Packages'', ''ai.fxn.fxn3d'', ''Plugins''] (path (LIBS ''v1.2.3'' ! 4))"
proof -
  have "LIBS ''v1.2.3'' ! 4 \<in> set (LIBS ''v1.2.3'')"
    by (simp add: LIBS_def)
  then show ?thesis
    using LIBS_seven_targets [of "''v1.2.3''"] by blast
qed

text \<open>
  C7. The list for version \<^verbatim>\<open>v1.2.3\<close> has the Windows entry: the URL ends in
  \<^verbatim>\<open>edgefxn/v1.2.3/Function-win64.dll\<close> and the destination, printed, ends in
  \<^verbatim>\<open>Windows/Function.dll\<close>.
\<close>

theorem LIBS_windows_entry:
  "\<lparr>url = ''https://cdn.fxn.ai/edgefxn/v1.2.3/Function-win64.dll'',
     path = [''Packages'', ''ai.fxn.fxn3d'', ''Plugins'', ''Windows'', ''Function.dll'']\<rparr>
     \<in> set (LIBS ''v1.2.3'') \<and>
   suffix ''edgefxn/v1.2.3/Function-win64.dll''
     ''https://cdn.fxn.ai/edgefxn/v1.2.3/Function-win64.dll'' \<and>
   suffix ''Windows/Function.dll''
     (path_str [''Packages'', ''ai.fxn.fxn3d'', ''Plugins'', ''Windows'', ''Function.dll''])"
proof -
  have "''https://cdn.fxn.ai/edgefxn/v1.2.3/Function-win64.dll'' =
          ''https://cdn.fxn.ai/'' @ ''edgefxn/v1.2.3/Function-win64.dll''"
    by simp
  moreover have
    "path_str [''Packages'', ''ai.fxn.fxn3d'', ''Plugins'', ''Windows'', ''Function.dll''] =
       ''Packages/ai.fxn.fxn3d/Plugins/'' @ ''Windows/Function.dll''"
    by simp
  ultimately show ?thesis
    unfolding suffix_def by (simp add: LIBS_def path_defs)
qed

text \<open>
  C8. For every version string the seven destinations are pairwise distinct.
\<close>

theorem LIBS_paths_distinct: "distinct (map path (LIBS v))"
  by (simp add: LIBS_def path_defs)

text \<open>
  C10. For every version string the sixth entry, the one for the Web, takes the URL that
  ends in \<^verbatim>\<open>Function.wasm\<close> to the file \<^verbatim>\<open>libFunction.so\<close> in the directory
  \<^verbatim>\<open>Web\<close>; the name of the file does not end in \<^verbatim>\<open>.wasm\<close>.
\<close>

theorem LIBS_web_entry:
  "LIBS v ! 5 =
     \<lparr>url = ''https://cdn.fxn.ai/edgefxn/'' @ v @ ''/Function.wasm'',
      path = [''Packages'', ''ai.fxn.fxn3d'', ''Plugins'', ''Web'', ''libFunction.so'']\<rparr> \<and>
   suffix ''Function.wasm'' (url (LIBS v ! 5)) \<and>
   butlast (path (LIBS v ! 5)) = truediv LIB_PATH_BASE ''Web'' \<and>
   last (path (LIBS v ! 5)) = ''libFunction.so'' \<and>
   \<not> suffix ''.wasm'' (last (path (LIBS v ! 5)))"
proof -
  have e: "LIBS v ! 5 =
     \<lparr>url = ''https://cdn.fxn.ai/edgefxn/'' @ v @ ''/Function.wasm'',
      path = [''Packages'', ''ai.fxn.fxn3d'', ''Plugins'', ''Web'', ''libFunction.so'']\<rparr>"
    by (simp add: LIBS_def path_defs)
  have "''https://cdn.fxn.ai/edgefxn/'' @ v @ ''/Function.wasm'' =
          (''https://cdn.fxn.ai/edgefxn/'' @ v @ ''/'') @ ''Function.wasm''"
    by simp
  then have "suffix ''Function.wasm'' (''https://cdn.fxn.ai/edgefxn/'' @ v @ ''/Function.wasm'')"
    unfolding suffix_def by blast
  moreover have "\<not> suffix ''.wasm'' ''libFunction.so''"
    by (simp add: suffix_to_prefix)
  ultimately show ?thesis
    unfolding e by (simp add: path_defs)
qed

section \<open>One download\<close>

lemma resolve_dir_dirs:
  "dirs w' = dirs w \<Longrightarrow> resolve_dir w p q cs = None \<Longrightarrow> resolve_dir w' p q cs = None"
  by (induction cs arbitrary: q) (auto split: if_splits)

text \<open>
  The walk succeeds exactly when every directory on the way exists.
\<close>

lemma resolve_dir_None_iff:
  "resolve_dir w p q cs = None \<longleftrightarrow> (\<forall>k. 0 < k \<and> k \<le> length cs \<longrightarrow> q @ take k cs \<in> dirs w)"
proof (induction cs arbitrary: q)
  case Nil
  then show ?case by simp
next
  case (Cons c cs)
  have "(\<forall>k. 0 < k \<and> k \<le> Suc (length cs) \<longrightarrow> q @ take k (c # cs) \<in> dirs w) \<longleftrightarrow>
        q @ [c] \<in> dirs w \<and> (\<forall>k. 0 < k \<and> k \<le> length cs \<longrightarrow> (q @ [c]) @ take k cs \<in> dirs w)"
    (is "?L \<longleftrightarrow> ?R")
  proof
    assume l: ?L
    have "q @ take 1 (c # cs) \<in> dirs w" using l by (metis One_nat_def Suc_le_mono le0 zero_less_one)
    moreover have "\<forall>k. 0 < k \<and> k \<le> length cs \<longrightarrow> (q @ [c]) @ take k cs \<in> dirs w"
    proof (intro allI impI)
      fix k assume "0 < k \<and> k \<le> length cs"
      then have "q @ take (Suc k) (c # cs) \<in> dirs w" using l by (metis Suc_le_mono zero_less_Suc)
      then show "(q @ [c]) @ take k cs \<in> dirs w" by simp
    qed
    ultimately show ?R by simp
  next
    assume r: ?R
    show ?L
    proof (intro allI impI)
      fix k assume k: "0 < k \<and> k \<le> Suc (length cs)"
      then obtain j where j: "k = Suc j" by (cases k) auto
      show "q @ take k (c # cs) \<in> dirs w"
      proof (cases j)
        case 0
        then show ?thesis using r j by simp
      next
        case (Suc i)
        then have "(q @ [c]) @ take j cs \<in> dirs w" using r k j by simp
        then show ?thesis using j by simp
      qed
    qed
  qed
  with Cons.IH [of "q @ [c]"] show ?case by auto
qed

lemma download_fxnc_log:
  "requests (snd (download_fxnc net u p w)) = requests w @ [u] \<and>
   dirs (snd (download_fxnc net u p w)) = dirs w \<and>
   denied (snd (download_fxnc net u p w)) = denied w"
  by (simp add: download_fxnc_def get_def raise_for_status_def write_binary_def
      split: option.splits sum.splits prod.splits)

lemma download_fxnc_http_error:
  "net (length (requests w)) u = Some r \<Longrightarrow> 400 \<le> status_code r \<Longrightarrow> status_code r < 600 \<Longrightarrow>
   download_fxnc net u p w = (Inl (HTTPError (status_code r)), w\<lparr>requests := requests w @ [u]\<rparr>)"
  by (simp add: download_fxnc_def get_def raise_for_status_def)

lemma download_fxnc_no_response:
  "net (length (requests w)) u = None \<Longrightarrow>
   download_fxnc net u p w = (Inl RequestException, w\<lparr>requests := requests w @ [u]\<rparr>)"
  by (simp add: download_fxnc_def get_def)

lemma download_fxnc_passed:
  "net (length (requests w)) u = Some r \<Longrightarrow> raise_for_status r = Inr () \<Longrightarrow>
   download_fxnc net u p w =
     (case write_binary p (content r) (w\<lparr>requests := requests w @ [u]\<rparr>) of
        (Inl e, w2) \<Rightarrow> (Inl e, w2)
      | (Inr _, w2) \<Rightarrow>
          (Inr (), w2\<lparr>stdout := stdout w2 @ [''Wrote '' @ u @ '' to path: '' @ path_str p]\<rparr>))"
  by (simp add: download_fxnc_def get_def)

lemma resolve_dir_requests [simp]:
  "resolve_dir (w\<lparr>requests := rs\<rparr>) p q cs = resolve_dir w p q cs"
  by (induction cs arbitrary: q) auto

lemma download_fxnc_written:
  "net (length (requests w)) u = Some r \<Longrightarrow> raise_for_status r = Inr () \<Longrightarrow>
   resolve_dir w p [] (butlast p) = None \<Longrightarrow> p \<noteq> [] \<Longrightarrow> p \<notin> dirs w \<Longrightarrow> p \<notin> denied w \<Longrightarrow>
   download_fxnc net u p w =
     (Inr (), w\<lparr>requests := requests w @ [u], files := (files w)(p \<mapsto> content r),
        stdout := stdout w @ [''Wrote '' @ u @ '' to path: '' @ path_str p]\<rparr>)"
  by (simp add: download_fxnc_passed write_binary_def)

lemma download_fxnc_success:
  "fst (download_fxnc net u p w) = Inr () \<Longrightarrow>
   \<exists>r. net (length (requests w)) u = Some r \<and> raise_for_status r = Inr () \<and>
       resolve_dir w p [] (butlast p) = None \<and> p \<noteq> [] \<and> p \<notin> dirs w \<and> p \<notin> denied w"
  by (simp add: download_fxnc_def get_def write_binary_def
      split: option.splits sum.splits prod.splits if_splits)

text \<open>
  C1, amended. On a response that passes \<^verbatim>\<open>raise_for_status\<close>, the download creates no
  directory: the directories are the same after the call as before. It writes the body to
  the path when every directory above the path exists already (and the path is neither a
  directory nor write-protected); when one is missing, it raises the error of \<^verbatim>\<open>open\<close>
  and no file is written.
\<close>

theorem download_fxnc_creates_no_directory:
  "net (length (requests w)) u = Some r \<Longrightarrow> raise_for_status r = Inr () \<Longrightarrow>
   dirs (snd (download_fxnc net u p w)) = dirs w \<and>
   (\<forall>e. resolve_dir w p [] (butlast p) = Some e \<longrightarrow>
      fst (download_fxnc net u p w) = Inl e \<and>
      files (snd (download_fxnc net u p w)) = files w) \<and>
   (resolve_dir w p [] (butlast p) = None \<and> p \<noteq> [] \<and> p \<notin> dirs w \<and> p \<notin> denied w \<longrightarrow>
      fst (download_fxnc net u p w) = Inr () \<and>
      files (snd (download_fxnc net u p w)) = (files w)(p \<mapsto> content r))"
proof -
  assume n: "net (length (requests w)) u = Some r" and s: "raise_for_status r = Inr ()"
  have e: "download_fxnc net u p w =
     (case write_binary p (content r) (w\<lparr>requests := requests w @ [u]\<rparr>) of
        (Inl e, w2) \<Rightarrow> (Inl e, w2)
      | (Inr _, w2) \<Rightarrow>
          (Inr (), w2\<lparr>stdout := stdout w2 @ [''Wrote '' @ u @ '' to path: '' @ path_str p]\<rparr>))"
    using n s by (rule download_fxnc_passed)
  have "dirs (snd (download_fxnc net u p w)) = dirs w"
    by (simp add: download_fxnc_log)
  moreover have "\<forall>e. resolve_dir w p [] (butlast p) = Some e \<longrightarrow>
      fst (download_fxnc net u p w) = Inl e \<and>
      files (snd (download_fxnc net u p w)) = files w"
    unfolding e by (simp add: write_binary_def)
  moreover have
    "resolve_dir w p [] (butlast p) = None \<and> p \<noteq> [] \<and> p \<notin> dirs w \<and> p \<notin> denied w \<longrightarrow>
      fst (download_fxnc net u p w) = Inr () \<and>
      files (snd (download_fxnc net u p w)) = (files w)(p \<mapsto> content r)"
    unfolding e by (simp add: write_binary_def)
  ultimately show ?thesis by blast
qed

theorem download_fxnc_creates_no_directory_witness:
  "fst (download_fxnc (net_always (Response 200 [1, 2, 3]))
      ''https://cdn.fxn.ai/edgefxn/v1.2.3/Function-win64.dll''
      [''Packages'', ''ai.fxn.fxn3d'', ''Plugins'', ''Windows'', ''Function.dll''] w_plugins) = Inr () \<and>
   files (snd (download_fxnc (net_always (Response 200 [1, 2, 3]))
      ''https://cdn.fxn.ai/edgefxn/v1.2.3/Function-win64.dll''
      [''Packages'', ''ai.fxn.fxn3d'', ''Plugins'', ''Windows'', ''Function.dll''] w_plugins))
     [''Packages'', ''ai.fxn.fxn3d'', ''Plugins'', ''Windows'', ''Function.dll''] = Some [1, 2, 3] \<and>
   fst (download_fxnc (net_always (Response 200 [1, 2, 3]))
      ''https://cdn.fxn.ai/edgefxn/v1.2.3/Function-win64.dll''
      [''Packages'', ''ai.fxn.fxn3d'', ''Plugins'', ''Windows'', ''Function.dll''] w_bare)
     = Inl (FileNotFoundError [''Packages'', ''ai.fxn.fxn3d'', ''Plugins'', ''Windows'', ''Function.dll'']) \<and>
   dirs (snd (download_fxnc (net_always (Response 200 [1, 2, 3]))
      ''https://cdn.fxn.ai/edgefxn/v1.2.3/Function-win64.dll''
      [''Packages'', ''ai.fxn.fxn3d'', ''Plugins'', ''Windows'', ''Function.dll''] w_bare)) = {}"
  using download_fxnc_creates_no_directory
      [where net = "net_always (Response 200 [1, 2, 3])" and w = w_plugins
        and u = "''https://cdn.fxn.ai/edgefxn/v1.2.3/Function-win64.dll''"
        and r = "Response 200 [1, 2, 3]"
        and p = "[''Packages'', ''ai.fxn.fxn3d'', ''Plugins'', ''Windows'', ''Function.dll'']"]
    download_fxnc_creates_no_directory
      [where net = "net_always (Response 200 [1, 2, 3])" and w = w_bare
        and u = "''https://cdn.fxn.ai/edgefxn/v1.2.3/Function-win64.dll''"
        and r = "Response 200 [1, 2, 3]"
        and p = "[''Packages'', ''ai.fxn.fxn3d'', ''Plugins'', ''Windows'', ''Function.dll'']"]
  by (simp add: net_always_def raise_for_status_def w_plugins_def w_bare_def plugin_dirs_def)

text \<open>
  C1 as stated fails. In an empty working directory the CDN answers the request for the
  Windows library with status 200 and three bytes: the download raises
  \<^verbatim>\<open>FileNotFoundError\<close>, the file is not written and no directory exists afterwards.
\<close>

theorem download_fxnc_missing_directory_counterexample:
  "fst (download_fxnc (net_always (Response 200 [1, 2, 3]))
      ''https://cdn.fxn.ai/edgefxn/v1.2.3/Function-win64.dll''
      [''Packages'', ''ai.fxn.fxn3d'', ''Plugins'', ''Windows'', ''Function.dll''] w_bare)
    = Inl (FileNotFoundError [''Packages'', ''ai.fxn.fxn3d'', ''Plugins'', ''Windows'', ''Function.dll'']) \<and>
   dirs (snd (download_fxnc (net_always (Response 200 [1, 2, 3]))
      ''https://cdn.fxn.ai/edgefxn/v1.2.3/Function-win64.dll''
      [''Packages'', ''ai.fxn.fxn3d'', ''Plugins'', ''Windows'', ''Function.dll''] w_bare)) = {} \<and>
   files (snd (download_fxnc (net_always (Response 200 [1, 2, 3]))
      ''https://cdn.fxn.ai/edgefxn/v1.2.3/Function-win64.dll''
      [''Packages'', ''ai.fxn.fxn3d'', ''Plugins'', ''Windows'', ''Function.dll''] w_bare))
      [''Packages'', ''ai.fxn.fxn3d'', ''Plugins'', ''Windows'', ''Function.dll''] = None"
  by (simp add: download_fxnc_def get_def raise_for_status_def write_binary_def
      w_bare_def net_always_def)

text \<open>
  C6. When a download returns without an exception, the request was answered, and the
  file at the path holds exactly the bytes of the body of that answer, whatever it held
  before; every other file is as it was. And a download does return so when the answer
  has a status from 200 to 299, every directory above the path exists and the path is
  neither a directory nor write-protected.
\<close>

theorem download_fxnc_writes_body:
  "(fst (download_fxnc net u p w) = Inr () \<longrightarrow>
      (\<exists>r. net (length (requests w)) u = Some r \<and>
           files (snd (download_fxnc net u p w)) p = Some (content r) \<and>
           (\<forall>q. q \<noteq> p \<longrightarrow> files (snd (download_fxnc net u p w)) q = files w q))) \<and>
   (\<forall>r. net (length (requests w)) u = Some r \<and>
        200 \<le> status_code r \<and> status_code r < 300 \<and>
        resolve_dir w p [] (butlast p) = None \<and> p \<noteq> [] \<and> p \<notin> dirs w \<and> p \<notin> denied w \<longrightarrow>
        fst (download_fxnc net u p w) = Inr () \<and>
        files (snd (download_fxnc net u p w)) p = Some (content r))"
proof (intro conjI impI allI)
  assume ok: "fst (download_fxnc net u p w) = Inr ()"
  from download_fxnc_success [OF ok] obtain r where
    r: "net (length (requests w)) u = Some r" "raise_for_status r = Inr ()"
       "resolve_dir w p [] (butlast p) = None" "p \<noteq> []" "p \<notin> dirs w" "p \<notin> denied w"
    by blast
  have "files (snd (download_fxnc net u p w)) = (files w)(p \<mapsto> content r)"
    using r by (simp add: download_fxnc_written)
  with r(1) show "\<exists>r. net (length (requests w)) u = Some r \<and>
           files (snd (download_fxnc net u p w)) p = Some (content r) \<and>
           (\<forall>q. q \<noteq> p \<longrightarrow> files (snd (download_fxnc net u p w)) q = files w q)"
    by simp
next
  fix r
  assume h: "net (length (requests w)) u = Some r \<and>
        200 \<le> status_code r \<and> status_code r < 300 \<and>
        resolve_dir w p [] (butlast p) = None \<and> p \<noteq> [] \<and> p \<notin> dirs w \<and> p \<notin> denied w"
  then have "raise_for_status r = Inr ()"
    by (simp add: raise_for_status_def)
  with h have d: "download_fxnc net u p w =
     (Inr (), w\<lparr>requests := requests w @ [u], files := (files w)(p \<mapsto> content r),
        stdout := stdout w @ [''Wrote '' @ u @ '' to path: '' @ path_str p]\<rparr>)"
    by (simp add: download_fxnc_written)
  show "fst (download_fxnc net u p w) = Inr ()"
    by (simp add: d)
  show "files (snd (download_fxnc net u p w)) p = Some (content r)"
    by (simp add: d)
qed

theorem download_fxnc_writes_body_witness:
  "files w_stale [''Packages'', ''ai.fxn.fxn3d'', ''Plugins'', ''Windows'', ''Function.dll'']
     = Some [222, 173] \<and>
   fst (download_fxnc (net_always (Response 200 [1, 2, 3]))
      ''https://cdn.fxn.ai/edgefxn/v1.2.3/Function-win64.dll''
      [''Packages'', ''ai.fxn.fxn3d'', ''Plugins'', ''Windows'', ''Function.dll''] w_stale) = Inr () \<and>
   files (snd (download_fxnc (net_always (Response 200 [1, 2, 3]))
      ''https://cdn.fxn.ai/edgefxn/v1.2.3/Function-win64.dll''
      [''Packages'', ''ai.fxn.fxn3d'', ''Plugins'', ''Windows'', ''Function.dll''] w_stale))
     [''Packages'', ''ai.fxn.fxn3d'', ''Plugins'', ''Windows'', ''Function.dll''] = Some [1, 2, 3]"
proof -
  have h: "net_always (Response 200 [1, 2, 3]) (length (requests w_stale))
        ''https://cdn.fxn.ai/edgefxn/v1.2.3/Function-win64.dll'' = Some (Response 200 [1, 2, 3]) \<and>
      200 \<le> status_code (Response 200 [1, 2, 3]) \<and> status_code (Response 200 [1, 2, 3]) < 300 \<and>
      resolve_dir w_stale [''Packages'', ''ai.fxn.fxn3d'', ''Plugins'', ''Windows'', ''Function.dll'']
        [] (butlast [''Packages'', ''ai.fxn.fxn3d'', ''Plugins'', ''Windows'', ''Function.dll'']) = None \<and>
      [''Packages'', ''ai.fxn.fxn3d'', ''Plugins'', ''Windows'', ''Function.dll''] \<noteq> [] \<and>
      [''Packages'', ''ai.fxn.fxn3d'', ''Plugins'', ''Windows'', ''Function.dll''] \<notin> dirs w_stale \<and>
      [''Packages'', ''ai.fxn.fxn3d'', ''Plugins'', ''Windows'', ''Function.dll''] \<notin> denied w_stale"
    by (simp add: net_always_def w_stale_def plugin_dirs_def)
  have old: "files w_stale [''Packages'', ''ai.fxn.fxn3d'', ''Plugins'', ''Windows'', ''Function.dll'']
     = Some [222, 173]"
    by (simp add: w_stale_def)
  from download_fxnc_writes_body
      [of "net_always (Response 200 [1, 2, 3])"
        "''https://cdn.fxn.ai/edgefxn/v1.2.3/Function-win64.dll''"
        "[''Packages'', ''ai.fxn.fxn3d'', ''Plugins'', ''Windows'', ''Function.dll'']" w_stale]
    h old
  show ?thesis
    by fastforce
qed

text \<open>
  C9, amended. When the request cannot be completed, or is answered with a status from
  400 to 599, the download raises, and nothing but the log of requests has changed: every
  file, present or absent, is as it was before the call.
\<close>

theorem download_fxnc_error_writes_nothing:
  "net (length (requests w)) u = None \<or>
   (\<exists>r. net (length (requests w)) u = Some r \<and> 400 \<le> status_code r \<and> status_code r < 600) \<Longrightarrow>
   (\<exists>e. fst (download_fxnc net u p w) = Inl e) \<and>
   snd (download_fxnc net u p w) = w\<lparr>requests := requests w @ [u]\<rparr> \<and>
   files (snd (download_fxnc net u p w)) = files w"
  by (auto simp: download_fxnc_http_error download_fxnc_no_response)

theorem download_fxnc_error_writes_nothing_witness:
  "files (snd (download_fxnc (net_always (Response 404 [4, 0, 4]))
      ''https://cdn.fxn.ai/edgefxn/v1.2.3/Function-win64.dll''
      [''Packages'', ''ai.fxn.fxn3d'', ''Plugins'', ''Windows'', ''Function.dll''] w_stale))
     [''Packages'', ''ai.fxn.fxn3d'', ''Plugins'', ''Windows'', ''Function.dll''] = Some [222, 173] \<and>
   files (snd (download_fxnc net_down
      ''https://cdn.fxn.ai/edgefxn/v1.2.3/Function-win64.dll''
      [''Packages'', ''ai.fxn.fxn3d'', ''Plugins'', ''Windows'', ''Function.dll''] w_stale))
     [''Packages'', ''ai.fxn.fxn3d'', ''Plugins'', ''Windows'', ''Function.dll''] = Some [222, 173]"
  using download_fxnc_error_writes_nothing
      [where net = "net_always (Response 404 [4, 0, 4])" and w = w_stale
        and u = "''https://cdn.fxn.ai/edgefxn/v1.2.3/Function-win64.dll''"
        and p = "[''Packages'', ''ai.fxn.fxn3d'', ''Plugins'', ''Windows'', ''Function.dll'']"]
    download_fxnc_error_writes_nothing
      [where net = net_down and w = w_stale
        and u = "''https://cdn.fxn.ai/edgefxn/v1.2.3/Function-win64.dll''"
        and p = "[''Packages'', ''ai.fxn.fxn3d'', ''Plugins'', ''Windows'', ''Function.dll'']"]
  by (simp add: net_always_def net_down_def w_stale_def)

text \<open>
  C9 as stated fails for a status that is no success and no error of the client or the
  server. The older Windows library of two bytes is there; the CDN answers with status
  304 and an empty body: the download returns normally and the file is empty afterwards.
\<close>

theorem download_fxnc_status_304_counterexample:
  "files w_stale [''Packages'', ''ai.fxn.fxn3d'', ''Plugins'', ''Windows'', ''Function.dll'']
     = Some [222, 173] \<and>
   fst (download_fxnc (net_always (Response 304 []))
      ''https://cdn.fxn.ai/edgefxn/v1.2.3/Function-win64.dll''
      [''Packages'', ''ai.fxn.fxn3d'', ''Plugins'', ''Windows'', ''Function.dll''] w_stale) = Inr () \<and>
   files (snd (download_fxnc (net_always (Response 304 []))
      ''https://cdn.fxn.ai/edgefxn/v1.2.3/Function-win64.dll''
      [''Packages'', ''ai.fxn.fxn3d'', ''Plugins'', ''Windows'', ''Function.dll''] w_stale))
     [''Packages'', ''ai.fxn.fxn3d'', ''Plugins'', ''Windows'', ''Function.dll''] = Some []"
  by (simp add: download_fxnc_def get_def raise_for_status_def write_binary_def
      w_stale_def plugin_dirs_def net_always_def)

section \<open>Resolving the version\<close>

lemma get_latest_version_log:
  "requests (snd (get_latest_version net json_of w)) = requests w @ [releases_url]"
  by (simp add: get_latest_version_def get_def split: option.splits sum.splits)

text \<open>
  C4. A version given on the command line that is not the empty string is returned as it
  is, and the world is untouched: no request is issued. A request is issued exactly when
  the version is absent or empty, and then it is one request, to the releases endpoint.
\<close>

theorem resolve_version_explicit:
  "(v \<noteq> [] \<longrightarrow> resolve_version net json_of (Some v) w = (Inr (JStr v), w)) \<and>
   requests (snd (resolve_version net json_of a w)) =
     (if a = None \<or> a = Some []
      then requests w @ [''https://api.github.com/repos/fxnai/fxnc/releases/latest'']
      else requests w)"
proof -
  have "v \<noteq> [] \<longrightarrow> resolve_version net json_of (Some v) w = (Inr (JStr v), w)"
    by (simp add: resolve_version_def truthy_def)
  moreover have "requests (snd (resolve_version net json_of a w)) =
     (if a = None \<or> a = Some []
      then requests w @ [''https://api.github.com/repos/fxnai/fxnc/releases/latest'']
      else requests w)"
    using get_latest_version_log [of net json_of w]
    by (cases a) (simp_all add: resolve_version_def truthy_def releases_url_def)
  ultimately show ?thesis by blast
qed

theorem resolve_version_explicit_witness:
  "resolve_version net_down (json_always JNull) (Some ''v1.2.3'') w_bare
     = (Inr (JStr ''v1.2.3''), w_bare) \<and>
   requests (snd (resolve_version net_down (json_always JNull) (Some ''v1.2.3'') w_bare)) = [] \<and>
   requests (snd (resolve_version net_down (json_always JNull) None w_bare))
     = [''https://api.github.com/repos/fxnai/fxnc/releases/latest'']"
  using resolve_version_explicit [of "''v1.2.3''" net_down "json_always JNull" w_bare "Some ''v1.2.3''"]
    resolve_version_explicit [of "''v1.2.3''" net_down "json_always JNull" w_bare None]
  by (simp add: w_bare_def)

text \<open>
  C5. Without a version on the command line, one request is issued, to the releases
  endpoint, whatever the answer is. When the answer has a status from 200 to 299 and its
  body decodes to an object with the key \<^verbatim>\<open>tag_name\<close>, the value under that key is
  returned as it is.
\<close>

theorem resolve_version_latest:
  "requests (snd (resolve_version net json_of None w)) =
     requests w @ [''https://api.github.com/repos/fxnai/fxnc/releases/latest''] \<and>
   (\<forall>r kvs tag.
      net (length (requests w)) ''https://api.github.com/repos/fxnai/fxnc/releases/latest'' = Some r \<and>
      200 \<le> status_code r \<and> status_code r < 300 \<and>
      json_of (content r) = Some (JObj kvs) \<and>
      map_of kvs ''tag_name'' = Some tag \<longrightarrow>
      resolve_version net json_of None w =
        (Inr tag,
         w\<lparr>requests := requests w @ [''https://api.github.com/repos/fxnai/fxnc/releases/latest'']\<rparr>))"
proof -
  have "requests (snd (resolve_version net json_of None w)) =
     requests w @ [''https://api.github.com/repos/fxnai/fxnc/releases/latest'']"
    using get_latest_version_log [of net json_of w]
    by (simp add: resolve_version_def truthy_def releases_url_def)
  moreover have "\<forall>r kvs tag.
      net (length (requests w)) ''https://api.github.com/repos/fxnai/fxnc/releases/latest'' = Some r \<and>
      200 \<le> status_code r \<and> status_code r < 300 \<and>
      json_of (content r) = Some (JObj kvs) \<and>
      map_of kvs ''tag_name'' = Some tag \<longrightarrow>
      resolve_version net json_of None w =
        (Inr tag,
         w\<lparr>requests := requests w @ [''https://api.github.com/repos/fxnai/fxnc/releases/latest'']\<rparr>)"
    by (simp add: resolve_version_def truthy_def get_latest_version_def get_def
        raise_for_status_def releases_url_def)
  ultimately show ?thesis by blast
qed

theorem resolve_version_latest_witness:
  "resolve_version (net_always (Response 200 [123, 125]))
     (json_always (JObj [(''name'', JStr ''Function 0.0.9''), (''tag_name'', JStr ''v0.0.9'')]))
     None w_bare
   = (Inr (JStr ''v0.0.9''),
      w_bare\<lparr>requests := [''https://api.github.com/repos/fxnai/fxnc/releases/latest'']\<rparr>)"
proof -
  have "net_always (Response 200 [123, 125]) (length (requests w_bare))
          ''https://api.github.com/repos/fxnai/fxnc/releases/latest'' = Some (Response 200 [123, 125]) \<and>
        200 \<le> status_code (Response 200 [123, 125]) \<and> status_code (Response 200 [123, 125]) < 300 \<and>
        json_always (JObj [(''name'', JStr ''Function 0.0.9''), (''tag_name'', JStr ''v0.0.9'')])
          (content (Response 200 [123, 125]))
          = Some (JObj [(''name'', JStr ''Function 0.0.9''), (''tag_name'', JStr ''v0.0.9'')]) \<and>
        map_of [(''name'', JStr ''Function 0.0.9''), (''tag_name'', JStr ''v0.0.9'')] ''tag_name''
          = Some (JStr ''v0.0.9'')"
    by (simp add: net_always_def json_always_def)
  with resolve_version_latest [of "net_always (Response 200 [123, 125])"
      "json_always (JObj [(''name'', JStr ''Function 0.0.9''), (''tag_name'', JStr ''v0.0.9'')])" w_bare]
  have "resolve_version (net_always (Response 200 [123, 125]))
     (json_always (JObj [(''name'', JStr ''Function 0.0.9''), (''tag_name'', JStr ''v0.0.9'')]))
     None w_bare
   = (Inr (JStr ''v0.0.9''),
      w_bare\<lparr>requests := requests w_bare @ [''https://api.github.com/repos/fxnai/fxnc/releases/latest'']\<rparr>)"
    by blast
  then show ?thesis by (simp add: w_bare_def)
qed

section \<open>The whole run\<close>

lemma download_libs_append:
  "download_libs net (xs @ ys) w =
     (case download_libs net xs w of
        (Inl e, w1) \<Rightarrow> (Inl e, w1)
      | (Inr _, w1) \<Rightarrow> download_libs net ys w1)"
  by (induction xs arbitrary: w) (auto split: prod.splits sum.splits)

lemma download_libs_requests:
  "download_libs net ls w = (Inr (), w') \<Longrightarrow> requests w' = requests w @ map url ls"
proof (induction ls arbitrary: w)
  case Nil
  then show ?case by simp
next
  case (Cons l ls)
  obtain x w1 where d: "download_fxnc net (url l) (path l) w = (x, w1)"
    by (cases "download_fxnc net (url l) (path l) w")
  with Cons.prems have rest: "download_libs net ls w1 = (Inr (), w')"
    by (auto split: sum.splits)
  have "requests w1 = requests w @ [url l]"
    using download_fxnc_log [of net "url l" "path l" w] d by simp
  with Cons.IH [OF rest] show ?case by simp
qed

lemma download_libs_all_written:
  assumes "\<forall>n u. \<exists>r. net n u = Some r \<and> raise_for_status r = Inr ()"
  shows "\<forall>l \<in> set ls. resolve_dir w (path l) [] (butlast (path l)) = None \<and>
           path l \<noteq> [] \<and> path l \<notin> dirs w \<and> path l \<notin> denied w \<Longrightarrow>
         fst (download_libs net ls w) = Inr () \<and>
         requests (snd (download_libs net ls w)) = requests w @ map url ls"
proof (induction ls arbitrary: w)
  case Nil
  then show ?case by simp
next
  case (Cons l ls)
  obtain r where r: "net (length (requests w)) (url l) = Some r" "raise_for_status r = Inr ()"
    using assms by blast
  let ?w1 = "w\<lparr>requests := requests w @ [url l], files := (files w)(path l \<mapsto> content r),
        stdout := stdout w @ [''Wrote '' @ url l @ '' to path: '' @ path_str (path l)]\<rparr>"
  have d: "download_fxnc net (url l) (path l) w = (Inr (), ?w1)"
    using r Cons.prems by (simp add: download_fxnc_written)
  have "\<forall>l \<in> set ls. resolve_dir ?w1 (path l) [] (butlast (path l)) = None \<and>
           path l \<noteq> [] \<and> path l \<notin> dirs ?w1 \<and> path l \<notin> denied ?w1"
  proof
    fix k
    assume "k \<in> set ls"
    then have k: "resolve_dir w (path k) [] (butlast (path k)) = None \<and>
           path k \<noteq> [] \<and> path k \<notin> dirs w \<and> path k \<notin> denied w"
      using Cons.prems by simp
    have "dirs ?w1 = dirs w"
      by simp
    then have "resolve_dir ?w1 (path k) [] (butlast (path k)) = None"
      using k resolve_dir_dirs [of ?w1 w "path k" "[]" "butlast (path k)"] by blast
    then show "resolve_dir ?w1 (path k) [] (butlast (path k)) = None \<and>
           path k \<noteq> [] \<and> path k \<notin> dirs ?w1 \<and> path k \<notin> denied ?w1"
      using k by simp
  qed
  from Cons.IH [OF this] show ?case
    by (simp add: d)
qed


lemmas run_defs = download_fxnc_def get_def raise_for_status_def write_binary_def

text \<open>
  C3, amended. If a download of the run is answered with a status from 400 to 599, the
  run ends there with the HTTP error: the world is the one the downloads before it left,
  with that one request added to the log, so that no later library is requested, the
  files written before stay as they are, and nothing else is written; the exit status
  is 1.
\<close>

theorem main_aborts_on_http_error:
  assumes "resolve_version net json_of a w = (Inr version, w0)"
    and "LIBS (format_value str_of version) = prior @ l # later"
    and "download_libs net prior w0 = (Inr (), w1)"
    and "net (length (requests w1)) (url l) = Some r"
    and "400 \<le> status_code r" and "status_code r < 600"
  shows "main net json_of str_of a w =
           (Inl (HTTPError (status_code r)),
            w1\<lparr>requests := requests w0 @ map url prior @ [url l]\<rparr>) \<and>
         exit_code (fst (main net json_of str_of a w)) = 1"
proof -
  have "download_fxnc net (url l) (path l) w1 =
          (Inl (HTTPError (status_code r)), w1\<lparr>requests := requests w1 @ [url l]\<rparr>)"
    using assms(4-6) by (rule download_fxnc_http_error)
  moreover have "requests w1 = requests w0 @ map url prior"
    using assms(3) by (rule download_libs_requests)
  ultimately have "download_libs net (prior @ l # later) w0 =
          (Inl (HTTPError (status_code r)),
            w1\<lparr>requests := requests w0 @ map url prior @ [url l]\<rparr>)"
    using assms(3) by (simp add: download_libs_append)
  then show ?thesis
    using assms(1,2) by (simp add: main_def exit_code_def)
qed

theorem main_aborts_on_http_error_witness:
  "fst (main (net_404_from 2) (json_always JNull) str_unused (Some ''v1.2.3'') w_plugins)
     = Inl (HTTPError 404) \<and>
   exit_code (fst (main (net_404_from 2) (json_always JNull) str_unused (Some ''v1.2.3'') w_plugins))
     = 1 \<and>
   requests (snd (main (net_404_from 2) (json_always JNull) str_unused (Some ''v1.2.3'') w_plugins))
     = [''https://cdn.fxn.ai/edgefxn/v1.2.3/libFunction-android-arm64-v8a.so'',
        ''https://cdn.fxn.ai/edgefxn/v1.2.3/libFunction-android-armeabi-v7a.so'',
        ''https://cdn.fxn.ai/edgefxn/v1.2.3/libFunction-android-x86.so''] \<and>
   files (snd (main (net_404_from 2) (json_always JNull) str_unused (Some ''v1.2.3'') w_plugins))
     [''Packages'', ''ai.fxn.fxn3d'', ''Plugins'', ''Android'', ''arm64-v8a'', ''libFunction.so'']
     = Some [1, 2, 3] \<and>
   files (snd (main (net_404_from 2) (json_always JNull) str_unused (Some ''v1.2.3'') w_plugins))
     [''Packages'', ''ai.fxn.fxn3d'', ''Plugins'', ''Android'', ''x86'', ''libFunction.so'']
     = None"
proof -
  let ?prior = "take 2 (LIBS ''v1.2.3'')"
  let ?w1 = "snd (download_libs (net_404_from 2) ?prior w_plugins)"
  have v: "resolve_version (net_404_from 2) (json_always JNull) (Some ''v1.2.3'') w_plugins
             = (Inr (JStr ''v1.2.3''), w_plugins)"
    by (simp add: resolve_version_def truthy_def)
  have s: "LIBS (format_value str_unused (JStr ''v1.2.3''))
             = ?prior @ (LIBS ''v1.2.3'' ! 2) # drop 3 (LIBS ''v1.2.3'')"
    by (simp add: format_value_def LIBS_def)
  have f: "fst (download_libs (net_404_from 2) ?prior w_plugins) = Inr ()"
    by (simp add: LIBS_def path_defs run_defs net_404_from_def w_plugins_def plugin_dirs_def)
  then have p: "download_libs (net_404_from 2) ?prior w_plugins = (Inr (), ?w1)"
    by (simp add: prod_eq_iff)
  have "length (requests ?w1) = 2"
    using download_libs_requests [OF p] by (simp add: w_plugins_def LIBS_def)
  then have n: "net_404_from 2 (length (requests ?w1)) (url (LIBS ''v1.2.3'' ! 2))
                  = Some (Response 404 [])"
    by (simp add: net_404_from_def)
  have b: "400 \<le> status_code (Response 404 [])" "status_code (Response 404 []) < 600"
    by simp_all
  have w1: "files ?w1
       [''Packages'', ''ai.fxn.fxn3d'', ''Plugins'', ''Android'', ''arm64-v8a'', ''libFunction.so'']
       = Some [1, 2, 3] \<and>
     files ?w1
       [''Packages'', ''ai.fxn.fxn3d'', ''Plugins'', ''Android'', ''x86'', ''libFunction.so'']
       = None"
    by (simp add: LIBS_def path_defs run_defs net_404_from_def w_plugins_def plugin_dirs_def)
  have rq: "requests w_plugins @ map url ?prior @ [url (LIBS ''v1.2.3'' ! 2)]
     = [''https://cdn.fxn.ai/edgefxn/v1.2.3/libFunction-android-arm64-v8a.so'',
        ''https://cdn.fxn.ai/edgefxn/v1.2.3/libFunction-android-armeabi-v7a.so'',
        ''https://cdn.fxn.ai/edgefxn/v1.2.3/libFunction-android-x86.so'']"
    by (simp add: LIBS_def w_plugins_def)
  note t = main_aborts_on_http_error [OF v s p n b]
  have m: "main (net_404_from 2) (json_always JNull) str_unused (Some ''v1.2.3'') w_plugins
      = (Inl (HTTPError 404),
         ?w1\<lparr>requests := requests w_plugins @ map url ?prior @ [url (LIBS ''v1.2.3'' ! 2)]\<rparr>)"
    using t [THEN conjunct1] by simp
  have e: "exit_code (fst (main (net_404_from 2) (json_always JNull) str_unused
              (Some ''v1.2.3'') w_plugins)) = 1"
    using t [THEN conjunct2] .
  show ?thesis
    using e w1 rq by (simp add: m)
qed

text \<open>
  C3 as stated fails for a status that is neither a success nor an error of the client
  or the server. The CDN answers every request of the run for \<^verbatim>\<open>v1.2.3\<close> with status
  304: the first answer is no success, and still all seven libraries are requested and
  the exit status is 0.
\<close>

theorem main_status_304_counterexample:
  "fst (main (net_always (Response 304 [])) (json_always JNull) str_unused
          (Some ''v1.2.3'') w_plugins) = Inr () \<and>
   exit_code (fst (main (net_always (Response 304 [])) (json_always JNull) str_unused
          (Some ''v1.2.3'') w_plugins)) = 0 \<and>
   requests (snd (main (net_always (Response 304 [])) (json_always JNull) str_unused
          (Some ''v1.2.3'') w_plugins))
     = [''https://cdn.fxn.ai/edgefxn/v1.2.3/libFunction-android-arm64-v8a.so'',
        ''https://cdn.fxn.ai/edgefxn/v1.2.3/libFunction-android-armeabi-v7a.so'',
        ''https://cdn.fxn.ai/edgefxn/v1.2.3/libFunction-android-x86.so'',
        ''https://cdn.fxn.ai/edgefxn/v1.2.3/libFunction-android-x86_64.so'',
        ''https://cdn.fxn.ai/edgefxn/v1.2.3/Function-macos.dylib'',
        ''https://cdn.fxn.ai/edgefxn/v1.2.3/Function.wasm'',
        ''https://cdn.fxn.ai/edgefxn/v1.2.3/Function-win64.dll'']"
proof -
  have n: "\<forall>n u. \<exists>r. net_always (Response 304 []) n u = Some r \<and> raise_for_status r = Inr ()"
    by (simp add: net_always_def raise_for_status_def)
  have d: "\<forall>l \<in> set (LIBS ''v1.2.3'').
             resolve_dir w_plugins (path l) [] (butlast (path l)) = None \<and>
             path l \<noteq> [] \<and> path l \<notin> dirs w_plugins \<and> path l \<notin> denied w_plugins"
    by (simp add: LIBS_def path_defs w_plugins_def plugin_dirs_def)
  have m: "main (net_always (Response 304 [])) (json_always JNull) str_unused
             (Some ''v1.2.3'') w_plugins
           = download_libs (net_always (Response 304 [])) (LIBS ''v1.2.3'') w_plugins"
    by (simp add: main_def resolve_version_def truthy_def format_value_def)
  have "requests w_plugins = []"
    by (simp add: w_plugins_def)
  with download_libs_all_written [OF n d] show ?thesis
    unfolding m by (simp add: exit_code_def LIBS_def)
qed

end
